theory Spec2Isabelle
  imports Main
begin

section \<open>Values carried by a bound form\<close>

text \<open>
  The three validators of \<^verbatim>\<open>netbox_access_lists/forms.py\<close> are the \<^verbatim>\<open>clean\<close> methods of
  \<^verbatim>\<open>AccessListForm\<close>, \<^verbatim>\<open>ACLStandardRuleForm\<close> and \<^verbatim>\<open>ACLExtendedRuleForm\<close>. They read the
  form's \<^verbatim>\<open>cleaned_data\<close> dictionary with \<^verbatim>\<open>dict.get\<close> and branch on Python truthiness, so
  the model keeps the dictionary and the dynamically typed values it holds: \<^verbatim>\<open>None\<close>,
  strings (remark, action, protocol, name), integers (index), references to stored
  objects by primary key (device, prefixes) and lists (ports).
\<close>

datatype pyval =
    PyNone
  | PyStr string
  | PyInt int
  | PyObj nat
  | PyList "int list"

text \<open>Python's \<^verbatim>\<open>bool(v)\<close>: what \<^verbatim>\<open>if v:\<close> tests. A model instance is always true.\<close>

fun truthy :: "pyval \<Rightarrow> bool" where
  "truthy PyNone = False"
| "truthy (PyStr s) = (s \<noteq> [])"
| "truthy (PyInt i) = (i \<noteq> 0)"
| "truthy (PyObj p) = True"
| "truthy (PyList xs) = (xs \<noteq> [])"

type_synonym pydict = "string \<rightharpoonup> pyval"

text \<open>\<^verbatim>\<open>d.get(k)\<close>: the value stored under \<open>k\<close>, \<^verbatim>\<open>None\<close> when the key is absent.\<close>

definition get :: "pydict \<Rightarrow> string \<Rightarrow> pyval" where
  "get d k = (case d k of None \<Rightarrow> PyNone | Some v \<Rightarrow> v)"

text \<open>
  \<^verbatim>\<open>forms.ValidationError(message)\<close>. A raise inside \<^verbatim>\<open>clean\<close> is the \<open>Inl\<close> branch of the
  result, a normal \<^verbatim>\<open>return cleaned_data\<close> the \<open>Inr\<close> branch.
\<close>

datatype error = ValidationError string

text \<open>
  The state of a bound model form that the validators read: \<^verbatim>\<open>self.errors\<close> (field name to
  the messages of per-field validation), \<^verbatim>\<open>self.cleaned_data\<close> (what \<^verbatim>\<open>super().clean()\<close>
  returns), \<^verbatim>\<open>self.changed_data\<close> (names of the fields whose submitted value differs from
  the initial one) and the primary key of \<^verbatim>\<open>self.instance\<close>, \<open>None\<close> for a form that
  creates a new object. Host framework code computes all four before \<^verbatim>\<open>clean\<close> runs.
\<close>

record NetBoxModelForm =
  errors :: "string \<rightharpoonup> string list"
  cleaned_data :: pydict
  changed_data :: "string list"
  instance_pk :: "nat option"

text \<open>\<^verbatim>\<open>if self.errors.get(k):\<close> holds when the field has a non-empty error list.\<close>

definition errors_get :: "NetBoxModelForm \<Rightarrow> string \<Rightarrow> bool" where
  "errors_get self k = (case errors self k of None \<Rightarrow> False | Some es \<Rightarrow> es \<noteq> [])"

section \<open>Rule forms\<close>

text \<open>\<^verbatim>\<open>ACLStandardRuleForm.clean\<close> (forms.py, lines 148 to 157).\<close>

definition ACLStandardRuleForm_clean :: "NetBoxModelForm \<Rightarrow> error + pydict" where
  "ACLStandardRuleForm_clean self =
     (let cleaned = cleaned_data self in
      if truthy (get cleaned ''remark'') then
        if truthy (get cleaned ''action'') then
          Inl (ValidationError ''Cannot input a remark AND an action. Remove one.'')
        else if truthy (get cleaned ''source_prefix'') then
          Inl (ValidationError ''Cannot input a remark AND a source prefix. Remove one.'')
        else Inr cleaned
      else Inr cleaned)"

text \<open>\<^verbatim>\<open>ACLExtendedRuleForm.clean\<close> (forms.py, lines 231 to 248).\<close>

definition ACLExtendedRuleForm_clean :: "NetBoxModelForm \<Rightarrow> error + pydict" where
  "ACLExtendedRuleForm_clean self =
     (let cleaned = cleaned_data self in
      if truthy (get cleaned ''remark'') then
        if truthy (get cleaned ''action'') then
          Inl (ValidationError ''Cannot input a remark AND an action. Remove one.'')
        else if truthy (get cleaned ''source_prefix'') then
          Inl (ValidationError ''Cannot input a remark AND a source prefix. Remove one.'')
        else if truthy (get cleaned ''source_ports'') then
          Inl (ValidationError ''Cannot input a remark AND source ports. Remove one.'')
        else if truthy (get cleaned ''destination_prefix'') then
          Inl (ValidationError ''Cannot input a remark AND a destination prefix. Remove one.'')
        else if truthy (get cleaned ''destination_ports'') then
          Inl (ValidationError ''Cannot input a remark AND destination ports. Remove one.'')
        else if truthy (get cleaned ''protocol'') then
          Inl (ValidationError ''Cannot input a remark AND a protocol. Remove one.'')
        else Inr cleaned
      else Inr cleaned)"

section \<open>The access list store and its lookup\<close>

text \<open>
  A stored \<^verbatim>\<open>AccessList\<close> row, as far as the validator's query reads it: primary key,
  name and the primary key of the device it is attached to.
\<close>

record AccessList =
  acl_pk :: nat
  acl_name :: string
  acl_device :: nat

text \<open>
  The database as the validator sees it: the rows behind \<^verbatim>\<open>AccessList.objects\<close> and a log
  of the existence queries issued so far (the submitted name and device of each), so
  that reading the store is an effect the model records.
\<close>

record database =
  access_lists :: "AccessList list"
  query_log :: "(pyval \<times> pyval) list"

text \<open>
  The comparison behind the host ORM's \<^verbatim>\<open>name__iexact\<close> lookup is not part of this
  repository: the database decides which two names are equal without regard to case.
  It is a parameter \<open>iexact\<close> of the query and of the validator (stored name first,
  submitted name second), and nothing is assumed of it.
\<close>

type_synonym name_lookup = "string \<Rightarrow> string \<Rightarrow> bool"

text \<open>
  The two conditions of \<^verbatim>\<open>filter(name__iexact=name, device=device)\<close> on one row. The
  submitted values come from \<^verbatim>\<open>cleaned_data.get\<close>; a value that is not a string
  (not a device reference) matches no stored row.
\<close>

fun name_iexact :: "name_lookup \<Rightarrow> AccessList \<Rightarrow> pyval \<Rightarrow> bool" where
  "name_iexact iexact a (PyStr n) = iexact (acl_name a) n"
| "name_iexact iexact a v = False"

fun device_is :: "AccessList \<Rightarrow> pyval \<Rightarrow> bool" where
  "device_is a (PyObj d) = (acl_device a = d)"
| "device_is a v = False"

definition objects_filter ::
    "name_lookup \<Rightarrow> AccessList list \<Rightarrow> pyval \<Rightarrow> pyval \<Rightarrow> AccessList list" where
  "objects_filter iexact rows n d =
     filter (\<lambda>a. name_iexact iexact a n \<and> device_is a d) rows"

text \<open>
  \<^verbatim>\<open>AccessList.objects.filter(name__iexact=name, device=device).exists()\<close>: one read of
  the store. It returns whether a row matches and leaves the rows as they are; the
  query is appended to the log.
\<close>

definition filter_exists ::
    "name_lookup \<Rightarrow> pyval \<Rightarrow> pyval \<Rightarrow> database \<Rightarrow> bool \<times> database" where
  "filter_exists iexact n d db =
     (objects_filter iexact (access_lists db) n d \<noteq> [],
      db\<lparr>query_log := query_log db @ [(n, d)]\<rparr>)"

section \<open>Access list form\<close>

text \<open>
  \<^verbatim>\<open>AccessListForm.clean\<close> (forms.py, lines 57 to 65). Python's \<^verbatim>\<open>and\<close> evaluates the
  query only when the test on \<^verbatim>\<open>changed_data\<close> holds.
\<close>

definition AccessListForm_clean ::
    "name_lookup \<Rightarrow> NetBoxModelForm \<Rightarrow> database \<Rightarrow> (error + pydict) \<times> database" where
  "AccessListForm_clean iexact self db =
     (let cleaned = cleaned_data self in
      if errors_get self ''name'' then (Inr cleaned, db)
      else
        let name = get cleaned ''name'';
            device = get cleaned ''device''
        in
          if ''name'' \<in> set (changed_data self) \<or> ''device'' \<in> set (changed_data self) then
            (case filter_exists iexact name device db of
               (True, db') \<Rightarrow>
                 (Inl (ValidationError
                    ''An ACL with this name (case insensitive) is already associated to this device.''),
                  db')
             | (False, db') \<Rightarrow> (Inr cleaned, db'))
          else (Inr cleaned, db))"

section \<open>The error kinds of the specification\<close>

text \<open>
  The specification names two error kinds. Both are \<^verbatim>\<open>ValidationError\<close>s in the code,
  told apart by their message: \<open>DuplicateName\<close> is the uniqueness message of the access
  list form, and \<open>MutuallyExclusiveFields k\<close> is the message a rule form raises for the
  logic field with key \<open>k\<close>.
\<close>

definition DuplicateName :: error where
  "DuplicateName =
     ValidationError
       ''An ACL with this name (case insensitive) is already associated to this device.''"

definition conflict_message :: "string \<Rightarrow> string" where
  "conflict_message k =
     (if k = ''action'' then ''Cannot input a remark AND an action. Remove one.''
      else if k = ''source_prefix'' then ''Cannot input a remark AND a source prefix. Remove one.''
      else if k = ''source_ports'' then ''Cannot input a remark AND source ports. Remove one.''
      else if k = ''destination_prefix'' then
        ''Cannot input a remark AND a destination prefix. Remove one.''
      else if k = ''destination_ports'' then
        ''Cannot input a remark AND destination ports. Remove one.''
      else if k = ''protocol'' then ''Cannot input a remark AND a protocol. Remove one.''
      else [])"

definition MutuallyExclusiveFields :: "string \<Rightarrow> error" where
  "MutuallyExclusiveFields k = ValidationError (conflict_message k)"

text \<open>The logic fields of each rule form, in the order in which \<^verbatim>\<open>clean\<close> tests them.\<close>

definition standard_logic_fields :: "string list" where
  "standard_logic_fields = [''action'', ''source_prefix'']"

definition extended_logic_fields :: "string list" where
  "extended_logic_fields =
     [''action'', ''source_prefix'', ''source_ports'',
      ''destination_prefix'', ''destination_ports'', ''protocol'']"

text \<open>The first field of a list that the submission populates, if any.\<close>

definition first_populated :: "pydict \<Rightarrow> string list \<Rightarrow> string option" where
  "first_populated d ks = find (\<lambda>k. truthy (get d k)) ks"

section \<open>Example submissions\<close>

text \<open>
  Concrete forms and stores on which the theorems below are exercised. Field values
  follow what the host framework puts into \<^verbatim>\<open>cleaned_data\<close>: an empty optional text or
  choice field is the empty string, an empty optional reference is \<^verbatim>\<open>None\<close>.
\<close>

definition remark_action_prefix :: NetBoxModelForm where
  "remark_action_prefix =
     \<lparr>errors = Map.empty,
      cleaned_data = [''remark'' \<mapsto> PyStr ''uplink'', ''action'' \<mapsto> PyStr ''permit'',
                      ''source_prefix'' \<mapsto> PyObj 7],
      changed_data = [''remark'', ''action'', ''source_prefix''],
      instance_pk = None\<rparr>"

definition remark_and_prefix :: NetBoxModelForm where
  "remark_and_prefix =
     \<lparr>errors = Map.empty,
      cleaned_data = [''remark'' \<mapsto> PyStr ''uplink'', ''action'' \<mapsto> PyStr [],
                      ''source_prefix'' \<mapsto> PyObj 7],
      changed_data = [''remark'', ''source_prefix''],
      instance_pk = None\<rparr>"

definition remark_and_protocol :: NetBoxModelForm where
  "remark_and_protocol =
     \<lparr>errors = Map.empty,
      cleaned_data = [''remark'' \<mapsto> PyStr ''allow mgmt'', ''protocol'' \<mapsto> PyStr ''tcp''],
      changed_data = [''remark'', ''protocol''],
      instance_pk = None\<rparr>"

definition remark_only :: NetBoxModelForm where
  "remark_only =
     \<lparr>errors = Map.empty,
      cleaned_data = [''remark'' \<mapsto> PyStr ''uplink'', ''action'' \<mapsto> PyStr [],
                      ''source_prefix'' \<mapsto> PyNone],
      changed_data = [''remark''],
      instance_pk = None\<rparr>"

definition action_and_prefix :: NetBoxModelForm where
  "action_and_prefix =
     \<lparr>errors = Map.empty,
      cleaned_data = [''remark'' \<mapsto> PyStr [], ''action'' \<mapsto> PyStr ''permit'',
                      ''source_prefix'' \<mapsto> PyObj 7],
      changed_data = [''action'', ''source_prefix''],
      instance_pk = None\<rparr>"

definition empty_rule :: NetBoxModelForm where
  "empty_rule =
     \<lparr>errors = Map.empty,
      cleaned_data = [''remark'' \<mapsto> PyStr [], ''action'' \<mapsto> PyStr [],
                      ''source_prefix'' \<mapsto> PyNone],
      changed_data = [],
      instance_pk = None\<rparr>"

definition action_only :: NetBoxModelForm where
  "action_only =
     \<lparr>errors = Map.empty,
      cleaned_data = [''remark'' \<mapsto> PyStr [], ''action'' \<mapsto> PyStr ''deny'',
                      ''source_prefix'' \<mapsto> PyNone],
      changed_data = [''action''],
      instance_pk = None\<rparr>"

text \<open>
  A sample comparison to run the examples with: two names are related when they are
  equal after the ASCII letters a to z are folded to upper case. The theorems hold for
  every comparison and do not depend on this one.
\<close>

definition ascii_upper :: "char \<Rightarrow> char" where
  "ascii_upper c =
     (case map_of (zip ''abcdefghijklmnopqrstuvwxyz'' ''ABCDEFGHIJKLMNOPQRSTUVWXYZ'') c of
        None \<Rightarrow> c
      | Some u \<Rightarrow> u)"

definition ascii_iexact :: name_lookup where
  "ascii_iexact a b = (map ascii_upper a = map ascii_upper b)"

text \<open>A store holding the access list "Edge-In" (primary key 1) on device 1.\<close>

definition edge_in_store :: database where
  "edge_in_store =
     \<lparr>access_lists = [\<lparr>acl_pk = 1, acl_name = ''Edge-In'', acl_device = 1\<rparr>],
      query_log = []\<rparr>"

text \<open>
  A store in which device 1 already carries two access lists whose names differ only by
  case, and whose log records an earlier query.
\<close>

definition two_case_store :: database where
  "two_case_store =
     \<lparr>access_lists = [\<lparr>acl_pk = 1, acl_name = ''Edge-In'', acl_device = 1\<rparr>,
                       \<lparr>acl_pk = 2, acl_name = ''EDGE-IN'', acl_device = 1\<rparr>],
      query_log = [(PyStr ''Core'', PyObj 3)]\<rparr>"

text \<open>Editing access list 1 so that only the letter case of its name changes.\<close>

definition recase_own_name :: NetBoxModelForm where
  "recase_own_name =
     \<lparr>errors = Map.empty,
      cleaned_data = [''name'' \<mapsto> PyStr ''edge-in'', ''device'' \<mapsto> PyObj 1],
      changed_data = [''name''],
      instance_pk = Some 1\<rparr>"

text \<open>Creating "edge-in" on device 1, and "Edge-In" on device 2.\<close>

definition create_lower_on_d1 :: NetBoxModelForm where
  "create_lower_on_d1 =
     \<lparr>errors = Map.empty,
      cleaned_data = [''name'' \<mapsto> PyStr ''edge-in'', ''device'' \<mapsto> PyObj 1],
      changed_data = [''device'', ''name''],
      instance_pk = None\<rparr>"

definition create_same_on_d2 :: NetBoxModelForm where
  "create_same_on_d2 =
     \<lparr>errors = Map.empty,
      cleaned_data = [''name'' \<mapsto> PyStr ''Edge-In'', ''device'' \<mapsto> PyObj 2],
      changed_data = [''device'', ''name''],
      instance_pk = None\<rparr>"

text \<open>Editing access list 1 without touching its name or device.\<close>

definition edit_comments_only :: NetBoxModelForm where
  "edit_comments_only =
     \<lparr>errors = Map.empty,
      cleaned_data = [''name'' \<mapsto> PyStr ''Edge-In'', ''device'' \<mapsto> PyObj 1],
      changed_data = [''comments''],
      instance_pk = Some 1\<rparr>"

text \<open>
  A creation whose name failed per-field validation: the field carries an error and,
  as the host framework does for a field in error, has no entry in \<^verbatim>\<open>cleaned_data\<close>.
\<close>

definition name_in_error :: NetBoxModelForm where
  "name_in_error =
     \<lparr>errors = [''name'' \<mapsto> [''This field is required.'']],
      cleaned_data = [''device'' \<mapsto> PyObj 1],
      changed_data = [''device''],
      instance_pk = None\<rparr>"

section \<open>Auxiliary facts\<close>

text \<open>Distinct logic fields have distinct messages, so a message names its field.\<close>

lemma conflict_message_inj:
  "k \<in> set extended_logic_fields \<Longrightarrow> k' \<in> set extended_logic_fields \<Longrightarrow>
   conflict_message k = conflict_message k' \<Longrightarrow> k = k'"
  unfolding extended_logic_fields_def conflict_message_def
  by (elim disjE | simp)+

text \<open>The outcome of the access list validator, as one case distinction.\<close>

lemma AccessListForm_clean_outcome:
  "fst (AccessListForm_clean iexact self db) =
     (if \<not> errors_get self ''name'' \<and>
         (''name'' \<in> set (changed_data self) \<or> ''device'' \<in> set (changed_data self)) \<and>
         objects_filter iexact (access_lists db)
           (get (cleaned_data self) ''name'') (get (cleaned_data self) ''device'') \<noteq> []
      then Inl DuplicateName
      else Inr (cleaned_data self))"
  by (simp add: AccessListForm_clean_def filter_exists_def DuplicateName_def Let_def)

text \<open>The state after the call: untouched, or with the one query appended to the log.\<close>

lemma AccessListForm_clean_state:
  "snd (AccessListForm_clean iexact self db) =
     (if \<not> errors_get self ''name'' \<and>
         (''name'' \<in> set (changed_data self) \<or> ''device'' \<in> set (changed_data self))
      then db\<lparr>query_log := query_log db @
             [(get (cleaned_data self) ''name'', get (cleaned_data self) ''device'')]\<rparr>
      else db)"
  by (simp add: AccessListForm_clean_def filter_exists_def Let_def split: bool.splits)

lemma objects_filter_nonempty:
  "(objects_filter iexact rows n d \<noteq> []) =
     (\<exists>a \<in> set rows. name_iexact iexact a n \<and> device_is a d)"
  by (auto simp add: objects_filter_def filter_empty_conv)

text \<open>
  With no error on the name field and name or device changed, the validator rejects
  exactly when the query finds a row, whichever row that is.
\<close>

lemma AccessListForm_clean_rejects_iff:
  assumes "\<not> errors_get self ''name''"
    and "''name'' \<in> set (changed_data self) \<or> ''device'' \<in> set (changed_data self)"
  shows "(fst (AccessListForm_clean iexact self db) = Inl DuplicateName) =
         (\<exists>a \<in> set (access_lists db).
            name_iexact iexact a (get (cleaned_data self) ''name'') \<and>
            device_is a (get (cleaned_data self) ''device''))"
  using assms by (simp add: AccessListForm_clean_outcome objects_filter_nonempty)

section \<open>Rule forms: remark against logic fields\<close>

text \<open>
  Claim C2. A standard rule submission whose remark is non-empty and which populates
  action or source prefix is rejected with the mutual exclusion error of the first
  populated field, action being tested before source prefix: when both are set the
  error is the one for action, and it is the one for source prefix only when action is
  empty.
\<close>

theorem standard_remark_conflict:
  assumes "truthy (get (cleaned_data self) ''remark'')"
    and "truthy (get (cleaned_data self) ''action'') \<or>
         truthy (get (cleaned_data self) ''source_prefix'')"
  shows "ACLStandardRuleForm_clean self =
           Inl (MutuallyExclusiveFields
                  (if truthy (get (cleaned_data self) ''action'') then ''action''
                   else ''source_prefix''))"
  using assms
  by (auto simp add: ACLStandardRuleForm_clean_def Let_def MutuallyExclusiveFields_def
      conflict_message_def)

theorem standard_remark_conflict_witness:
  "ACLStandardRuleForm_clean remark_action_prefix = Inl (MutuallyExclusiveFields ''action'') \<and>
   ACLStandardRuleForm_clean remark_and_prefix = Inl (MutuallyExclusiveFields ''source_prefix'')"
proof
  have "truthy (get (cleaned_data remark_action_prefix) ''remark'')"
    and "truthy (get (cleaned_data remark_action_prefix) ''action'')"
    by (simp_all add: remark_action_prefix_def get_def)
  then show "ACLStandardRuleForm_clean remark_action_prefix =
      Inl (MutuallyExclusiveFields ''action'')"
    using standard_remark_conflict [of remark_action_prefix] by simp
next
  have "truthy (get (cleaned_data remark_and_prefix) ''remark'')"
    and "\<not> truthy (get (cleaned_data remark_and_prefix) ''action'')"
    and "truthy (get (cleaned_data remark_and_prefix) ''source_prefix'')"
    by (simp_all add: remark_and_prefix_def get_def)
  then show "ACLStandardRuleForm_clean remark_and_prefix =
      Inl (MutuallyExclusiveFields ''source_prefix'')"
    using standard_remark_conflict [of remark_and_prefix] by simp
qed

text \<open>
  Claim C3. An extended rule submission whose remark is non-empty and which populates at
  least one of the six logic fields is rejected, and the error is the mutual exclusion
  error of the first populated field in the order action, source prefix, source ports,
  destination prefix, destination ports, protocol. The witness is the scenario of the
  specification: a remark with only the protocol set reports the protocol.
\<close>

theorem extended_remark_conflict:
  assumes "truthy (get (cleaned_data self) ''remark'')"
    and "\<exists>k \<in> set extended_logic_fields. truthy (get (cleaned_data self) k)"
  shows "\<exists>k. first_populated (cleaned_data self) extended_logic_fields = Some k \<and>
             ACLExtendedRuleForm_clean self = Inl (MutuallyExclusiveFields k)"
  using assms
  by (auto simp add: ACLExtendedRuleForm_clean_def Let_def MutuallyExclusiveFields_def
      conflict_message_def first_populated_def extended_logic_fields_def)

theorem extended_remark_conflict_witness:
  "ACLExtendedRuleForm_clean remark_and_protocol = Inl (MutuallyExclusiveFields ''protocol'')"
proof -
  have r: "truthy (get (cleaned_data remark_and_protocol) ''remark'')"
    by (simp add: remark_and_protocol_def get_def)
  have p: "\<exists>k \<in> set extended_logic_fields. truthy (get (cleaned_data remark_and_protocol) k)"
    by (simp add: remark_and_protocol_def get_def extended_logic_fields_def)
  have f: "first_populated (cleaned_data remark_and_protocol) extended_logic_fields =
      Some ''protocol''"
    by (simp add: remark_and_protocol_def get_def extended_logic_fields_def first_populated_def)
  from extended_remark_conflict [OF r p] f show ?thesis by auto
qed

text \<open>
  Claim C7. A standard rule submission that sets the remark alone (action and source
  prefix empty) is accepted, and so is one that sets action and source prefix while the
  remark is empty: in both cases the validator returns the submitted data and raises
  nothing.
\<close>

theorem standard_rule_accepted:
  "(truthy (get (cleaned_data self) ''remark'') \<and>
    \<not> truthy (get (cleaned_data self) ''action'') \<and>
    \<not> truthy (get (cleaned_data self) ''source_prefix'')
      \<longrightarrow> ACLStandardRuleForm_clean self = Inr (cleaned_data self)) \<and>
   (\<not> truthy (get (cleaned_data self) ''remark'') \<and>
    truthy (get (cleaned_data self) ''action'') \<and>
    truthy (get (cleaned_data self) ''source_prefix'')
      \<longrightarrow> ACLStandardRuleForm_clean self = Inr (cleaned_data self))"
  by (simp add: ACLStandardRuleForm_clean_def Let_def)

theorem standard_rule_accepted_witness:
  "ACLStandardRuleForm_clean remark_only = Inr (cleaned_data remark_only) \<and>
   ACLStandardRuleForm_clean action_and_prefix = Inr (cleaned_data action_and_prefix)"
proof
  have "truthy (get (cleaned_data remark_only) ''remark'')"
    and "\<not> truthy (get (cleaned_data remark_only) ''action'')"
    and "\<not> truthy (get (cleaned_data remark_only) ''source_prefix'')"
    by (simp_all add: remark_only_def get_def)
  then show "ACLStandardRuleForm_clean remark_only = Inr (cleaned_data remark_only)"
    using standard_rule_accepted [of remark_only] by simp
next
  have "\<not> truthy (get (cleaned_data action_and_prefix) ''remark'')"
    and "truthy (get (cleaned_data action_and_prefix) ''action'')"
    and "truthy (get (cleaned_data action_and_prefix) ''source_prefix'')"
    by (simp_all add: action_and_prefix_def get_def)
  then show "ACLStandardRuleForm_clean action_and_prefix = Inr (cleaned_data action_and_prefix)"
    using standard_rule_accepted [of action_and_prefix] by simp
qed

text \<open>
  Claim C10. The exclusivity checks run in one direction only. A standard or extended
  rule submission with an empty remark is accepted whatever its logic fields hold:
  nothing requires a rule without remark to populate any of them. The witness covers
  the rule with every field empty and the rule with an action but no source prefix.
\<close>

theorem empty_remark_accepted:
  assumes "\<not> truthy (get (cleaned_data self) ''remark'')"
  shows "ACLStandardRuleForm_clean self = Inr (cleaned_data self) \<and>
         ACLExtendedRuleForm_clean self = Inr (cleaned_data self)"
  using assms by (simp add: ACLStandardRuleForm_clean_def ACLExtendedRuleForm_clean_def Let_def)

theorem empty_remark_accepted_witness:
  "ACLStandardRuleForm_clean empty_rule = Inr (cleaned_data empty_rule) \<and>
   ACLExtendedRuleForm_clean empty_rule = Inr (cleaned_data empty_rule) \<and>
   ACLStandardRuleForm_clean action_only = Inr (cleaned_data action_only) \<and>
   ACLExtendedRuleForm_clean action_only = Inr (cleaned_data action_only)"
proof -
  have e: "\<not> truthy (get (cleaned_data empty_rule) ''remark'')"
    by (simp add: empty_rule_def get_def)
  have a: "\<not> truthy (get (cleaned_data action_only) ''remark'')"
    by (simp add: action_only_def get_def)
  from empty_remark_accepted [OF e] empty_remark_accepted [OF a] show ?thesis by simp
qed

section \<open>Access list form: name uniqueness per device\<close>

text \<open>
  Claim C1. The claim: when name or device changed, the validator fails with
  \<open>DuplicateName\<close> exactly when an access list other than the one being edited has the
  same device and a name equal up to case, so that an edit which only changes the
  letter case of the list's own name is accepted. The query of \<^verbatim>\<open>clean\<close> does not leave
  out the row under edit. At the submission below, access list 1 ("Edge-In" on device 1)
  is renamed to "edge-in": the name counts as changed, no row other than row 1 matches,
  and, under every comparison that takes "Edge-In" and "edge-in" for the same name,
  the validator still raises \<open>DuplicateName\<close>, because the stored row 1 itself matches
  the new name.
\<close>

theorem recase_own_name_rejected:
  assumes "iexact ''Edge-In'' ''edge-in''"
  shows "''name'' \<in> set (changed_data recase_own_name) \<and>
   filter (\<lambda>a. Some (acl_pk a) \<noteq> instance_pk recase_own_name \<and>
                name_iexact iexact a (get (cleaned_data recase_own_name) ''name'') \<and>
                device_is a (get (cleaned_data recase_own_name) ''device''))
     (access_lists edge_in_store) = [] \<and>
   fst (AccessListForm_clean iexact recase_own_name edge_in_store) = Inl DuplicateName"
  using assms
  by (simp add: AccessListForm_clean_outcome objects_filter_def recase_own_name_def
      edge_in_store_def get_def errors_get_def)

theorem recase_own_name_rejected_witness:
  "ascii_iexact ''Edge-In'' ''edge-in'' \<and>
   ''name'' \<in> set (changed_data recase_own_name) \<and>
   filter (\<lambda>a. Some (acl_pk a) \<noteq> instance_pk recase_own_name \<and>
                name_iexact ascii_iexact a (get (cleaned_data recase_own_name) ''name'') \<and>
                device_is a (get (cleaned_data recase_own_name) ''device''))
     (access_lists edge_in_store) = [] \<and>
   fst (AccessListForm_clean ascii_iexact recase_own_name edge_in_store) = Inl DuplicateName"
proof -
  have m: "ascii_iexact ''Edge-In'' ''edge-in''"
    by (simp add: ascii_iexact_def ascii_upper_def)
  from m recase_own_name_rejected [where iexact = ascii_iexact, OF m] show ?thesis by (intro conjI) (elim conjE, assumption)+
qed

text \<open>
  Claim C4. If the store holds an access list on a device and a submission brings, for
  the same device, a name that the case-insensitive comparison \<open>iexact\<close> takes for equal
  to the stored one, the validator fails with
  \<open>DuplicateName\<close>. A creation is such a submission: its form is built over a blank
  instance, so the submitted device and name differ from the initial values and the
  host framework lists them in \<^verbatim>\<open>changed_data\<close>, and the name, having passed per-field
  validation, carries no error. The witness is the scenario of the specification:
  "Edge-In" exists on device 1 and "edge-in" is created on device 1.
\<close>

theorem duplicate_name_rejected:
  assumes "a \<in> set (access_lists db)"
    and "acl_device a = d"
    and "iexact (acl_name a) n"
    and "\<not> errors_get self ''name''"
    and "get (cleaned_data self) ''name'' = PyStr n"
    and "get (cleaned_data self) ''device'' = PyObj d"
    and "''name'' \<in> set (changed_data self) \<or> ''device'' \<in> set (changed_data self)"
  shows "fst (AccessListForm_clean iexact self db) = Inl DuplicateName"
proof -
  from assms(1-3,5,6)
  have "\<exists>a \<in> set (access_lists db).
          name_iexact iexact a (get (cleaned_data self) ''name'') \<and>
          device_is a (get (cleaned_data self) ''device'')"
    by auto
  then have "objects_filter iexact (access_lists db)
      (get (cleaned_data self) ''name'') (get (cleaned_data self) ''device'') \<noteq> []"
    by (simp only: objects_filter_nonempty)
  with assms(4,7) show ?thesis
    by (simp add: AccessListForm_clean_outcome)
qed

theorem duplicate_name_rejected_witness:
  "ascii_iexact ''Edge-In'' ''edge-in'' \<and>
   fst (AccessListForm_clean ascii_iexact create_lower_on_d1 edge_in_store) = Inl DuplicateName"
proof -
  let ?a = "\<lparr>acl_pk = 1, acl_name = ''Edge-In'', acl_device = 1\<rparr>"
  have 1: "?a \<in> set (access_lists edge_in_store)"
    by (simp add: edge_in_store_def)
  have 2: "acl_device ?a = 1" by simp
  have 3: "ascii_iexact (acl_name ?a) ''edge-in''"
    by (simp add: ascii_iexact_def ascii_upper_def)
  have 4: "\<not> errors_get create_lower_on_d1 ''name''"
    by (simp add: errors_get_def create_lower_on_d1_def)
  have 5: "get (cleaned_data create_lower_on_d1) ''name'' = PyStr ''edge-in''"
    by (simp add: get_def create_lower_on_d1_def)
  have 6: "get (cleaned_data create_lower_on_d1) ''device'' = PyObj 1"
    by (simp add: get_def create_lower_on_d1_def)
  have 7: "''name'' \<in> set (changed_data create_lower_on_d1) \<or>
           ''device'' \<in> set (changed_data create_lower_on_d1)"
    by (simp add: create_lower_on_d1_def)
  from 3 duplicate_name_rejected [where iexact = ascii_iexact, OF 1 2 3 4 5 6 7] show ?thesis by simp
qed

text \<open>
  Claim C5. Uniqueness is per device. A submission of a name for a device is accepted
  when the case-insensitive comparison \<open>iexact\<close> relates no stored access list of that
  device to the submitted name, whatever the other devices carry. In the witness "Edge-In" exists on device 1 and the same
  name is created on device 2.
\<close>

theorem other_device_accepted:
  assumes "get (cleaned_data self) ''name'' = PyStr n"
    and "get (cleaned_data self) ''device'' = PyObj d"
    and "\<forall>a \<in> set (access_lists db). acl_device a = d \<longrightarrow> \<not> iexact (acl_name a) n"
  shows "fst (AccessListForm_clean iexact self db) = Inr (cleaned_data self)"
proof -
  from assms have "\<not> (\<exists>a \<in> set (access_lists db).
          name_iexact iexact a (get (cleaned_data self) ''name'') \<and>
          device_is a (get (cleaned_data self) ''device''))"
    by auto
  then have "objects_filter iexact (access_lists db)
      (get (cleaned_data self) ''name'') (get (cleaned_data self) ''device'') = []"
    using objects_filter_nonempty by blast
  then show ?thesis
    by (simp add: AccessListForm_clean_outcome)
qed

theorem other_device_accepted_witness:
  "(\<exists>a \<in> set (access_lists edge_in_store). acl_name a = ''Edge-In'' \<and> acl_device a = 1) \<and>
   fst (AccessListForm_clean ascii_iexact create_same_on_d2 edge_in_store) =
     Inr (cleaned_data create_same_on_d2)"
proof -
  have 1: "get (cleaned_data create_same_on_d2) ''name'' = PyStr ''Edge-In''"
    by (simp add: get_def create_same_on_d2_def)
  have 2: "get (cleaned_data create_same_on_d2) ''device'' = PyObj 2"
    by (simp add: get_def create_same_on_d2_def)
  have 3: "\<forall>a \<in> set (access_lists edge_in_store).
             acl_device a = 2 \<longrightarrow> \<not> ascii_iexact (acl_name a) ''Edge-In''"
    by (simp add: edge_in_store_def)
  have 4: "\<exists>a \<in> set (access_lists edge_in_store). acl_name a = ''Edge-In'' \<and> acl_device a = 1"
    by (simp add: edge_in_store_def)
  from 4 other_device_accepted [where iexact = ascii_iexact, OF 1 2 3] show ?thesis by simp
qed

text \<open>
  Claim C6. When neither name nor device is among the changed fields, the validator
  accepts whatever the store holds; it does not even query the store, which is returned
  as it was. In the witness the store holds two lists on the device whose names match
  the submitted one up to case.
\<close>

theorem unchanged_accepted:
  assumes "''name'' \<notin> set (changed_data self)"
    and "''device'' \<notin> set (changed_data self)"
  shows "AccessListForm_clean iexact self db = (Inr (cleaned_data self), db)"
  using assms by (simp add: AccessListForm_clean_def Let_def)

theorem unchanged_accepted_witness:
  "AccessListForm_clean ascii_iexact edit_comments_only two_case_store =
     (Inr (cleaned_data edit_comments_only), two_case_store)"
proof -
  have 1: "''name'' \<notin> set (changed_data edit_comments_only)"
    by (simp add: edit_comments_only_def)
  have 2: "''device'' \<notin> set (changed_data edit_comments_only)"
    by (simp add: edit_comments_only_def)
  from unchanged_accepted [OF 1 2] show ?thesis .
qed

text \<open>
  Claim C9. When the name field already carries an error from per-field validation,
  \<^verbatim>\<open>clean\<close> returns the cleaned data at once: no \<open>DuplicateName\<close> is raised and the
  existence query is not issued (the state, query log included, is unchanged).
\<close>

theorem name_error_returns_early:
  assumes "errors_get self ''name''"
  shows "AccessListForm_clean iexact self db = (Inr (cleaned_data self), db)"
  using assms by (simp add: AccessListForm_clean_def Let_def)

theorem name_error_returns_early_witness:
  "AccessListForm_clean ascii_iexact name_in_error edge_in_store =
     (Inr (cleaned_data name_in_error), edge_in_store) \<and>
   query_log (snd (AccessListForm_clean ascii_iexact name_in_error edge_in_store)) = []"
proof -
  have e: "errors_get name_in_error ''name''"
    by (simp add: errors_get_def name_in_error_def)
  have "query_log edge_in_store = []"
    by (simp add: edge_in_store_def)
  with name_error_returns_early [OF e] show ?thesis by simp
qed

section \<open>Purity of the validators\<close>

text \<open>
  Claim C8. Each validator is a function of the submitted fields, the access list
  validator also of the result of one read. For the access list validator: the rows of
  the store are the same after the call; the call issues no query or exactly one;
  running it again on the state it left gives the same outcome; any state with the
  same rows gives the same outcome; and an accepting run returns the submitted data
  unchanged. The rule validators take no store at all: their outcome is determined by
  \<^verbatim>\<open>cleaned_data\<close> alone, and an accepting run returns it unchanged.
\<close>

theorem validators_pure:
  "access_lists (snd (AccessListForm_clean iexact self db)) = access_lists db \<and>
   (query_log (snd (AccessListForm_clean iexact self db)) = query_log db \<or>
    (\<exists>q. query_log (snd (AccessListForm_clean iexact self db)) = query_log db @ [q])) \<and>
   fst (AccessListForm_clean iexact self (snd (AccessListForm_clean iexact self db))) =
     fst (AccessListForm_clean iexact self db) \<and>
   (access_lists db' = access_lists db \<longrightarrow>
      fst (AccessListForm_clean iexact self db') = fst (AccessListForm_clean iexact self db)) \<and>
   (\<forall>r. fst (AccessListForm_clean iexact self db) = Inr r \<longrightarrow> r = cleaned_data self) \<and>
   (cleaned_data self' = cleaned_data self \<longrightarrow>
      ACLStandardRuleForm_clean self' = ACLStandardRuleForm_clean self \<and>
      ACLExtendedRuleForm_clean self' = ACLExtendedRuleForm_clean self) \<and>
   (\<forall>r. ACLStandardRuleForm_clean self = Inr r \<longrightarrow> r = cleaned_data self) \<and>
   (\<forall>r. ACLExtendedRuleForm_clean self = Inr r \<longrightarrow> r = cleaned_data self)"
proof (intro conjI)
  show "access_lists (snd (AccessListForm_clean iexact self db)) = access_lists db"
    by (simp add: AccessListForm_clean_state)
  show "query_log (snd (AccessListForm_clean iexact self db)) = query_log db \<or>
    (\<exists>q. query_log (snd (AccessListForm_clean iexact self db)) = query_log db @ [q])"
    by (simp add: AccessListForm_clean_state)
  show "fst (AccessListForm_clean iexact self (snd (AccessListForm_clean iexact self db))) =
     fst (AccessListForm_clean iexact self db)"
    by (simp add: AccessListForm_clean_outcome AccessListForm_clean_state)
  show "access_lists db' = access_lists db \<longrightarrow>
      fst (AccessListForm_clean iexact self db') = fst (AccessListForm_clean iexact self db)"
    by (simp add: AccessListForm_clean_outcome)
  show "\<forall>r. fst (AccessListForm_clean iexact self db) = Inr r \<longrightarrow> r = cleaned_data self"
    by (simp add: AccessListForm_clean_outcome)
  show "cleaned_data self' = cleaned_data self \<longrightarrow>
      ACLStandardRuleForm_clean self' = ACLStandardRuleForm_clean self \<and>
      ACLExtendedRuleForm_clean self' = ACLExtendedRuleForm_clean self"
    by (simp add: ACLStandardRuleForm_clean_def ACLExtendedRuleForm_clean_def)
  show "\<forall>r. ACLStandardRuleForm_clean self = Inr r \<longrightarrow> r = cleaned_data self"
    by (simp add: ACLStandardRuleForm_clean_def Let_def)
  show "\<forall>r. ACLExtendedRuleForm_clean self = Inr r \<longrightarrow> r = cleaned_data self"
    by (simp add: ACLExtendedRuleForm_clean_def Let_def)
qed

theorem validators_pure_witness:
  "access_lists (snd (AccessListForm_clean ascii_iexact create_same_on_d2 edge_in_store)) =
     access_lists edge_in_store \<and>
   fst (AccessListForm_clean ascii_iexact create_same_on_d2
          (snd (AccessListForm_clean ascii_iexact create_same_on_d2 edge_in_store))) =
     Inr (cleaned_data create_same_on_d2) \<and>
   fst (AccessListForm_clean ascii_iexact create_same_on_d2
          (edge_in_store\<lparr>query_log := [(PyStr ''Core'', PyObj 3)]\<rparr>)) =
     Inr (cleaned_data create_same_on_d2) \<and>
   ACLStandardRuleForm_clean (remark_only\<lparr>changed_data := []\<rparr>) =
     Inr (cleaned_data remark_only) \<and>
   ACLExtendedRuleForm_clean (remark_and_protocol\<lparr>instance_pk := Some 5\<rparr>) =
     Inl (MutuallyExclusiveFields ''protocol'')"
proof -
  let ?db' = "edge_in_store\<lparr>query_log := [(PyStr ''Core'', PyObj 3)]\<rparr>"
  let ?std = "remark_only\<lparr>changed_data := []\<rparr>"
  let ?ext = "remark_and_protocol\<lparr>instance_pk := Some 5\<rparr>"
  note acl = validators_pure [of ascii_iexact create_same_on_d2 edge_in_store ?db']
  have out: "fst (AccessListForm_clean ascii_iexact create_same_on_d2 edge_in_store) =
      Inr (cleaned_data create_same_on_d2)"
    by (simp add: AccessListForm_clean_outcome objects_filter_def create_same_on_d2_def
        edge_in_store_def get_def errors_get_def)
  have rows: "access_lists ?db' = access_lists edge_in_store"
    by simp
  have std: "ACLStandardRuleForm_clean remark_only = Inr (cleaned_data remark_only)"
    by (simp add: ACLStandardRuleForm_clean_def remark_only_def get_def)
  have ext: "ACLExtendedRuleForm_clean remark_and_protocol =
      Inl (MutuallyExclusiveFields ''protocol'')"
    by (simp add: ACLExtendedRuleForm_clean_def remark_and_protocol_def get_def
        MutuallyExclusiveFields_def conflict_message_def)
  have s: "cleaned_data ?std = cleaned_data remark_only"
    by simp
  have e: "cleaned_data ?ext = cleaned_data remark_and_protocol"
    by simp
  have 1: "access_lists (snd (AccessListForm_clean ascii_iexact create_same_on_d2 edge_in_store)) =
      access_lists edge_in_store"
    using acl by blast
  have "fst (AccessListForm_clean ascii_iexact create_same_on_d2
          (snd (AccessListForm_clean ascii_iexact create_same_on_d2 edge_in_store))) =
      fst (AccessListForm_clean ascii_iexact create_same_on_d2 edge_in_store)"
    using acl by blast
  then have 2: "fst (AccessListForm_clean ascii_iexact create_same_on_d2
          (snd (AccessListForm_clean ascii_iexact create_same_on_d2 edge_in_store))) =
      Inr (cleaned_data create_same_on_d2)"
    using out by (rule trans)
  have "fst (AccessListForm_clean ascii_iexact create_same_on_d2 ?db') =
      fst (AccessListForm_clean ascii_iexact create_same_on_d2 edge_in_store)"
    using acl rows by blast
  then have 3: "fst (AccessListForm_clean ascii_iexact create_same_on_d2 ?db') =
      Inr (cleaned_data create_same_on_d2)"
    using out by (rule trans)
  have "ACLStandardRuleForm_clean ?std = ACLStandardRuleForm_clean remark_only"
    using validators_pure [of ascii_iexact remark_only edge_in_store edge_in_store ?std] s by blast
  then have 4: "ACLStandardRuleForm_clean ?std = Inr (cleaned_data remark_only)"
    using std by (rule trans)
  have "ACLExtendedRuleForm_clean ?ext = ACLExtendedRuleForm_clean remark_and_protocol"
    using validators_pure [of ascii_iexact remark_and_protocol edge_in_store edge_in_store ?ext] e by blast
  then have 5: "ACLExtendedRuleForm_clean ?ext = Inl (MutuallyExclusiveFields ''protocol'')"
    using ext by (rule trans)
  from 1 2 3 4 5 show ?thesis by (intro conjI)
qed

end
